theory Spec2Isabelle
  imports Main "HOL-Library.Sublist" "HOL-Library.Multiset"
begin

section \<open>fileitem: a set of case-insensitive entries mirrored in a text file\<close>

text \<open>
  The Go package \<^verbatim>\<open>fileitem\<close> keeps a set of strings in memory (\<^verbatim>\<open>gq.Set[string]\<close>, a Go
  map used as a set) and in a text file, one entry per line. This theory embeds the package
  function by function. Everything the package calls but does not define is modelled in the
  first three subsections: the functions of Go's \<^verbatim>\<open>strings\<close> package, the set container, and
  the file system behind the \<^verbatim>\<open>os\<close> package. The mutex \<^verbatim>\<open>itemsMu\<close> serialises the public
  methods; the model is sequential, so every method runs as one step and the lock has no
  counterpart.
\<close>

subsection \<open>The functions of package strings that the code calls\<close>

text \<open>
  A Go string is a sequence of bytes; here it is a \<^typ>\<open>string\<close>, a list of 8-bit
  characters. \<^verbatim>\<open>strings.TrimSpace\<close> and \<^verbatim>\<open>strings.ToLower\<close> are modelled on the ASCII range,
  where Go's white space is tab, line feed, vertical tab, form feed, carriage return and
  space, and where the letters \<^verbatim>\<open>A\<close> to \<^verbatim>\<open>Z\<close> are the only ones with a lower-case form. Bytes
  from 128 on are left alone by both functions of the model (Go decodes them as UTF-8).
\<close>

definition LF :: char where
  "LF = CHR 0x0A"

definition CR :: char where
  "CR = CHR 0x0D"

definition isSpace :: "char \<Rightarrow> bool" where
  "isSpace c = ((of_char c :: nat) \<in> {9, 10, 11, 12, 13, 32})"

definition TrimSpace :: "string \<Rightarrow> string" where
  "TrimSpace s = rev (dropWhile isSpace (rev (dropWhile isSpace s)))"

definition toLower :: "char \<Rightarrow> char" where
  "toLower c =
     (if 65 \<le> (of_char c :: nat) \<and> (of_char c :: nat) \<le> 90
      then char_of (of_char c + (32 :: nat)) else c)"

definition ToLower :: "string \<Rightarrow> string" where
  "ToLower s = map toLower s"

text \<open>
  \<^verbatim>\<open>strings.ReplaceAll(s, old, new)\<close> replaces the non-overlapping occurrences of \<^verbatim>\<open>old\<close>
  from left to right, and \<^verbatim>\<open>strings.Split(s, sep)\<close> cuts \<^verbatim>\<open>s\<close> at every occurrence of
  \<^verbatim>\<open>sep\<close>, so that a string without the separator is the single piece of the result. Both
  are modelled for a non-empty \<^verbatim>\<open>old\<close> and \<^verbatim>\<open>sep\<close>, which is how the package calls them.
\<close>

function ReplaceAll :: "string \<Rightarrow> string \<Rightarrow> string \<Rightarrow> string" where
  "ReplaceAll [] old new = []"
| "ReplaceAll (c # s) old new =
     (if old \<noteq> [] \<and> prefix old (c # s)
      then new @ ReplaceAll (drop (length old) (c # s)) old new
      else c # ReplaceAll s old new)"
  by pat_completeness auto
termination
  by (relation "measure (\<lambda>(s, old, new). length s)") (auto simp: neq_Nil_conv)

function Split :: "string \<Rightarrow> string \<Rightarrow> string list" where
  "Split [] sep = [[]]"
| "Split (c # s) sep =
     (if sep \<noteq> [] \<and> prefix sep (c # s)
      then [] # Split (drop (length sep) (c # s)) sep
      else (case Split s sep of [] \<Rightarrow> [[c]] | l # ls \<Rightarrow> (c # l) # ls))"
  by pat_completeness auto
termination
  by (relation "measure (\<lambda>(s, sep). length s)") (auto simp: neq_Nil_conv)

fun Join :: "string list \<Rightarrow> string \<Rightarrow> string" where
  "Join [] sep = []"
| "Join [x] sep = x"
| "Join (x # y # ys) sep = x @ sep @ Join (y # ys) sep"

subsection \<open>The set container\<close>

text \<open>
  \<^verbatim>\<open>gq.Set[string]\<close> is a Go map whose keys are the elements. It is modelled by a list of
  its keys, read as the set of its members: adding a key that is present changes nothing,
  deleting removes every copy. Go iterates over a map in an order that it chooses anew for
  every loop, so \<^verbatim>\<open>Values\<close> takes a number from the environment and enumerates the keys
  in the order that this number selects; every order of the keys is selected by some number
  (lemma \<open>shuffle_onto\<close>).
\<close>

type_synonym 'a Set = "'a list"

definition Set_Add :: "'a \<Rightarrow> 'a Set \<Rightarrow> 'a Set" where
  "Set_Add x s = (if x \<in> set s then s else s @ [x])"

definition Set_Delete :: "'a \<Rightarrow> 'a Set \<Rightarrow> 'a Set" where
  "Set_Delete x s = removeAll x s"

definition Set_Contains :: "'a \<Rightarrow> 'a Set \<Rightarrow> bool" where
  "Set_Contains x s = (x \<in> set s)"

fun shuffle :: "nat \<Rightarrow> 'a list \<Rightarrow> 'a list" where
  "shuffle k [] = []"
| "shuffle k (x # xs) =
     (let ys = shuffle (k div Suc (length xs)) xs;
          i = k mod Suc (length xs)
      in take i ys @ x # drop i ys)"

definition Set_Values :: "nat \<Rightarrow> 'a Set \<Rightarrow> 'a list" where
  "Set_Values k s = shuffle k (remdups s)"

subsection \<open>The file system\<close>

text \<open>
  The world outside the package holds the regular files by path, the faults that the
  next system calls will meet, and the numbers that choose the next map iteration orders.
  Each call of \<^verbatim>\<open>os.ReadFile\<close>, \<^verbatim>\<open>os.WriteFile\<close>, \<^verbatim>\<open>os.OpenFile\<close> and \<^verbatim>\<open>WriteString\<close> takes
  the next outcome from the list (an empty list means that the call goes through):
  \<open>Done\<close>, the call goes through; \<open>Refused code\<close>, it fails with that error and touches
  nothing; \<open>Broken code n\<close>, it fails after \<open>n\<close> bytes of the data have reached the file.
  \<^verbatim>\<open>Stat\<close> on an open file reports the size of the file, and \<^verbatim>\<open>Close\<close>, whose result the
  package drops, does nothing to the world.
\<close>

datatype error = ErrorsNew string | ErrNotExist | SyscallError nat

definition IsNotExist :: "error \<Rightarrow> bool" where
  "IsNotExist err = (err = ErrNotExist)"

datatype outcome = Done | Refused nat | Broken nat nat

record world =
  files :: "string \<rightharpoonup> string"
  faults :: "outcome list"
  seeds :: "nat list"

type_synonym File = string

definition next_fault :: "world \<Rightarrow> outcome \<times> world" where
  "next_fault w =
     (case faults w of [] \<Rightarrow> (Done, w) | out # rest \<Rightarrow> (out, w\<lparr>faults := rest\<rparr>))"

definition next_seed :: "world \<Rightarrow> nat \<times> world" where
  "next_seed w =
     (case seeds w of [] \<Rightarrow> (0, w) | k # rest \<Rightarrow> (k, w\<lparr>seeds := rest\<rparr>))"

definition ReadFile :: "string \<Rightarrow> world \<Rightarrow> (error + string) \<times> world" where
  "ReadFile name w =
     (let (out, w') = next_fault w in
      case out of
        Done \<Rightarrow> (case files w' name of
                   None \<Rightarrow> (Inl ErrNotExist, w')
                 | Some data \<Rightarrow> (Inr data, w'))
      | Refused code \<Rightarrow> (Inl (SyscallError code), w')
      | Broken code n \<Rightarrow> (Inl (SyscallError code), w'))"

definition WriteFile :: "string \<Rightarrow> string \<Rightarrow> world \<Rightarrow> error option \<times> world" where
  "WriteFile name data w =
     (let (out, w') = next_fault w in
      case out of
        Done \<Rightarrow> (None, w'\<lparr>files := (files w')(name \<mapsto> data)\<rparr>)
      | Refused code \<Rightarrow> (Some (SyscallError code), w')
      | Broken code n \<Rightarrow>
          (Some (SyscallError code), w'\<lparr>files := (files w')(name \<mapsto> take n data)\<rparr>))"

text \<open>\<^verbatim>\<open>os.OpenFile\<close> with the flags \<^verbatim>\<open>O_APPEND|O_CREATE|O_WRONLY\<close>.\<close>

definition OpenFile :: "string \<Rightarrow> world \<Rightarrow> (error + File) \<times> world" where
  "OpenFile name w =
     (let (out, w') = next_fault w in
      case out of
        Done \<Rightarrow> (case files w' name of
                   None \<Rightarrow> (Inr name, w'\<lparr>files := (files w')(name \<mapsto> [])\<rparr>)
                 | Some data \<Rightarrow> (Inr name, w'))
      | Refused code \<Rightarrow> (Inl (SyscallError code), w')
      | Broken code n \<Rightarrow> (Inl (SyscallError code), w'))"

definition Stat :: "File \<Rightarrow> world \<Rightarrow> nat option" where
  "Stat f w = map_option length (files w f)"

definition append_bytes :: "File \<Rightarrow> string \<Rightarrow> world \<Rightarrow> world" where
  "append_bytes f s w =
     w\<lparr>files := (files w)(f \<mapsto> (case files w f of None \<Rightarrow> s | Some data \<Rightarrow> data @ s))\<rparr>"

definition WriteString :: "File \<Rightarrow> string \<Rightarrow> world \<Rightarrow> error option \<times> world" where
  "WriteString f s w =
     (let (out, w') = next_fault w in
      case out of
        Done \<Rightarrow> (None, append_bytes f s w')
      | Refused code \<Rightarrow> (Some (SyscallError code), w')
      | Broken code n \<Rightarrow> (Some (SyscallError code), append_bytes f (take n s) w'))"

definition Close :: "File \<Rightarrow> world \<Rightarrow> world" where
  "Close f w = w"

subsection \<open>The package\<close>

record FileItem =
  path :: string
  items :: "string Set"

definition contains :: "FileItem \<Rightarrow> string \<Rightarrow> bool" where
  "contains fi item =
     (let item = TrimSpace item in
      if item = [] then False
      else Set_Contains (ToLower item) (items fi))"

definition Contains :: "FileItem \<Rightarrow> string \<Rightarrow> bool" where
  "Contains fi item = contains fi item"

definition Items :: "FileItem \<Rightarrow> world \<Rightarrow> string list \<times> world" where
  "Items fi w = (let (k, w') = next_seed w in (Set_Values k (items fi), w'))"

text \<open>The body of the loop of \<^verbatim>\<open>load\<close>, for one line.\<close>

definition load_line :: "string Set \<Rightarrow> string \<Rightarrow> string Set" where
  "load_line s line =
     (let line = TrimSpace line in
      if line \<noteq> [] then Set_Add (ToLower line) s else s)"

definition load :: "FileItem \<Rightarrow> world \<Rightarrow> error option \<times> FileItem \<times> world" where
  "load fi w =
     (case ReadFile (path fi) w of
        (Inl err, w') \<Rightarrow>
          if IsNotExist err
          then (let (r, w'') = WriteFile (path fi) [] w' in (r, fi, w''))
          else (Some err, fi, w')
      | (Inr data, w') \<Rightarrow>
          (let content = ReplaceAll data [CR, LF] [LF];
               lines = Split content [LF]
           in (None, fi\<lparr>items := foldl load_line (items fi) lines\<rparr>, w')))"

definition New :: "string \<Rightarrow> world \<Rightarrow> (error + FileItem) \<times> world" where
  "New p w =
     (let fi = \<lparr>path = p, items = []\<rparr> in
      case load fi w of
        (Some err, fi', w') \<Rightarrow> (Inl err, w')
      | (None, fi', w') \<Rightarrow> (Inr fi', w'))"

definition appendToFile :: "FileItem \<Rightarrow> string \<Rightarrow> world \<Rightarrow> error option \<times> world" where
  "appendToFile fi item w =
     (case OpenFile (path fi) w of
        (Inl err, w1) \<Rightarrow> (Some err, w1)
      | (Inr f, w1) \<Rightarrow>
          if (case Stat f w1 of None \<Rightarrow> False | Some n \<Rightarrow> n > 0)
          then (case WriteString f [LF] w1 of
                  (Some err, w2) \<Rightarrow> (Some err, Close f w2)
                | (None, w2) \<Rightarrow>
                    (let (r, w3) = WriteString f item w2 in (r, Close f w3)))
          else (let (r, w3) = WriteString f item w1 in (r, Close f w3)))"

definition rewriteFile :: "FileItem \<Rightarrow> world \<Rightarrow> error option \<times> world" where
  "rewriteFile fi w =
     (let (k, w') = next_seed w;
          lines = Set_Values k (items fi);
          content = Join lines [LF]
      in WriteFile (path fi) content w')"

definition Add :: "FileItem \<Rightarrow> string \<Rightarrow> world \<Rightarrow> error option \<times> FileItem \<times> world" where
  "Add fi item w =
     (let item = TrimSpace item in
      if item = [] then (Some (ErrorsNew ''cannot add empty entry''), fi, w)
      else if contains fi item then (Some (ErrorsNew ''already exists''), fi, w)
      else (let fi' = fi\<lparr>items := Set_Add (ToLower item) (items fi)\<rparr> in
            case appendToFile fi' item w of
              (Some err, w') \<Rightarrow> (Some err, fi', w')
            | (None, w') \<Rightarrow> (None, fi', w')))"

definition Remove :: "FileItem \<Rightarrow> string \<Rightarrow> world \<Rightarrow> error option \<times> FileItem \<times> world" where
  "Remove fi item w =
     (let item = TrimSpace item in
      if item = [] then (Some (ErrorsNew ''cannot remove empty entry''), fi, w)
      else if contains fi item
      then (let fi' = fi\<lparr>items := Set_Delete (ToLower item) (items fi)\<rparr>;
                (r, w') = rewriteFile fi' w
            in (r, fi', w'))
      else (Some (ErrorsNew ''entry not found''), fi, w))"

subsection \<open>What the file says, and agreement of file and memory\<close>


definition file_entries :: "string \<Rightarrow> string set" where
  "file_entries data =
     set (map ToLower (filter (\<lambda>l. l \<noteq> [])
       (map TrimSpace (Split (ReplaceAll data [CR, LF] [LF]) [LF]))))"


definition quiet :: "(string \<rightharpoonup> string) \<Rightarrow> world" where
  "quiet fs = \<lparr>files = fs, faults = [], seeds = []\<rparr>"



section \<open>Properties\<close>

subsection \<open>Strings\<close>

lemma CR_neq_LF [simp]: "CR \<noteq> LF"
  by (simp add: CR_def LF_def)

lemma LF_neq_CR [simp]: "LF \<noteq> CR"
  by (simp add: CR_def LF_def)

lemma isSpace_CR [simp]: "isSpace CR"
  by (simp add: isSpace_def CR_def)

lemma isSpace_LF [simp]: "isSpace LF"
  by (simp add: isSpace_def LF_def)











lemma of_char_LF: "(of_char LF :: nat) = 10"
  by (simp add: LF_def)

lemma eq_LF_iff: "c = LF \<longleftrightarrow> (of_char c :: nat) = 10"
  using of_char_eq_iff[of c LF, where ?'a = nat] by (simp add: LF_def)

lemma of_char_toLower:
  "(of_char (toLower c) :: nat) =
     (if 65 \<le> (of_char c :: nat) \<and> (of_char c :: nat) \<le> 90 then of_char c + 32 else of_char c)"
  by (simp add: toLower_def)

lemma isSpace_toLower [simp]: "isSpace (toLower c) = isSpace c"
  by (auto simp: isSpace_def of_char_toLower)

lemma toLower_idem [simp]: "toLower (toLower c) = toLower c"
  by (rule of_char_eqI[where ?'a = nat]) (simp add: of_char_toLower)

lemma toLower_eq_LF [simp]: "toLower c = LF \<longleftrightarrow> c = LF"
  by (auto simp: eq_LF_iff of_char_toLower split: if_splits)

lemma ToLower_idem [simp]: "ToLower (ToLower s) = ToLower s"
  by (simp add: ToLower_def)


lemma LF_in_ToLower [simp]: "LF \<in> set (ToLower s) \<longleftrightarrow> LF \<in> set s"
proof -
  have "LF = toLower x \<longleftrightarrow> x = LF" for x
    using toLower_eq_LF[of x] by metis
  then show ?thesis by (auto simp: ToLower_def image_iff)
qed


lemma TrimSpace_Nil [simp]: "TrimSpace [] = []"
  by (simp add: TrimSpace_def)


lemma last_dropWhile: "dropWhile P xs \<noteq> [] \<Longrightarrow> last (dropWhile P xs) = last xs"
  by (simp add: dropWhile_eq_drop)

lemma TrimSpace_ends:
  "TrimSpace s = [] \<or> (\<not> isSpace (hd (TrimSpace s)) \<and> \<not> isSpace (last (TrimSpace s)))"
proof (cases "TrimSpace s = []")
  case True
  then show ?thesis by simp
next
  case False
  let ?a = "dropWhile isSpace s"
  let ?b = "dropWhile isSpace (rev ?a)"
  have t: "TrimSpace s = rev ?b" by (simp add: TrimSpace_def)
  have b: "?b \<noteq> []" using False t by simp
  have a: "?a \<noteq> []"
  proof
    assume "?a = []"
    then have "?b = []" by (simp only: rev.simps dropWhile.simps)
    with b show False by contradiction
  qed
  have "last (rev ?b) = hd ?b" by (simp add: last_rev)
  moreover have "\<not> isSpace (hd ?b)" using b by (rule hd_dropWhile)
  moreover have "hd (rev ?b) = last ?b" by (simp add: hd_rev)
  moreover have "last ?b = last (rev ?a)" using b by (rule last_dropWhile)
  moreover have "last (rev ?a) = hd ?a" by (simp add: last_rev)
  moreover have "\<not> isSpace (hd ?a)" using a by (rule hd_dropWhile)
  ultimately show ?thesis using t by simp
qed

lemma TrimSpace_fixed:
  "t = [] \<or> (\<not> isSpace (hd t) \<and> \<not> isSpace (last t)) \<Longrightarrow> TrimSpace t = t"
proof (cases "t = []")
  case True
  then show ?thesis by simp
next
  case False
  assume "t = [] \<or> (\<not> isSpace (hd t) \<and> \<not> isSpace (last t))"
  with False have h: "\<not> isSpace (hd t)" and l: "\<not> isSpace (last t)" by auto
  have 1: "dropWhile isSpace t = t" using h by (simp add: dropWhile_eq_self_iff)
  have "\<not> isSpace (hd (rev t))" using l by (simp add: hd_rev)
  then have 2: "dropWhile isSpace (rev t) = rev t" by (simp add: dropWhile_eq_self_iff)
  show ?thesis by (simp add: TrimSpace_def 1 2)
qed

lemma TrimSpace_idem [simp]: "TrimSpace (TrimSpace s) = TrimSpace s"
  using TrimSpace_ends[of s] by (rule TrimSpace_fixed)






lemma file_entries_Nil [simp]: "file_entries [] = {}"
  by (simp add: file_entries_def)


subsection \<open>The container and the file system\<close>

lemma set_Set_Add [simp]: "set (Set_Add x s) = insert x (set s)"
  by (auto simp: Set_Add_def)

lemma set_Set_Delete [simp]: "set (Set_Delete x s) = set s - {x}"
  by (auto simp: Set_Delete_def)



text \<open>Every order of the keys is the one that some number selects.\<close>

lemma shuffle_onto: "mset ys = mset xs \<Longrightarrow> \<exists>k. shuffle k xs = ys"
proof (induction xs arbitrary: ys)
  case Nil
  then show ?case by simp
next
  case (Cons x xs)
  have "x \<in> set ys" using Cons.prems by (metis list.set_intros(1) mset_eq_setD)
  then obtain as bs where ys: "ys = as @ x # bs" by (meson split_list)
  have "mset (as @ bs) = mset xs" using Cons.prems ys by simp
  then obtain k' where k': "shuffle k' xs = as @ bs" using Cons.IH by blast
  have len: "length as + length bs = length xs"
    using \<open>mset (as @ bs) = mset xs\<close> by (metis length_append mset_eq_length)
  let ?n = "Suc (length xs)"
  let ?k = "length as + ?n * k'"
  have lt: "length as < ?n" using len by simp
  have "?k mod ?n = length as mod ?n" by (rule mod_mult_self2)
  then have m: "?k mod ?n = length as" using lt by (simp only: mod_less)
  have "?k div ?n = k' + length as div ?n" by (rule div_mult_self2) simp
  then have d: "?k div ?n = k'" using lt by (simp only: div_less add_0_right)
  have "shuffle ?k (x # xs) = take (length as) (as @ bs) @ x # drop (length as) (as @ bs)"
    by (simp only: shuffle.simps Let_def m d k')
  then have "shuffle ?k (x # xs) = ys" by (simp add: ys)
  then show ?case by blast
qed



lemma set_load_lines:
  "set (foldl load_line s ls) = set s \<union> ToLower ` {l \<in> set (map TrimSpace ls). l \<noteq> []}"
  by (induction ls arbitrary: s) (auto simp: load_line_def Let_def)



lemma next_fault_files [simp]: "files (snd (next_fault w)) = files w"
  by (simp add: next_fault_def split: list.splits)

lemma next_seed_files [simp]: "files (snd (next_seed w)) = files w"
  by (simp add: next_seed_def split: list.splits)


lemma ReadFile_eq:
  "ReadFile p w =
     (case fst (next_fault w) of
        Done \<Rightarrow> (case files w p of
                   None \<Rightarrow> (Inl ErrNotExist, snd (next_fault w))
                 | Some data \<Rightarrow> (Inr data, snd (next_fault w)))
      | Refused code \<Rightarrow> (Inl (SyscallError code), snd (next_fault w))
      | Broken code n \<Rightarrow> (Inl (SyscallError code), snd (next_fault w)))"
  by (simp add: ReadFile_def Let_def split_beta split: outcome.splits option.splits)

lemma WriteFile_eq:
  "WriteFile p data w =
     (case fst (next_fault w) of
        Done \<Rightarrow> (None, (snd (next_fault w))\<lparr>files := (files w)(p \<mapsto> data)\<rparr>)
      | Refused code \<Rightarrow> (Some (SyscallError code), snd (next_fault w))
      | Broken code n \<Rightarrow>
          (Some (SyscallError code), (snd (next_fault w))\<lparr>files := (files w)(p \<mapsto> take n data)\<rparr>))"
  by (simp add: WriteFile_def Let_def split_beta split: outcome.splits)

lemma OpenFile_eq:
  "OpenFile p w =
     (case fst (next_fault w) of
        Done \<Rightarrow> (case files w p of
                   None \<Rightarrow> (Inr p, (snd (next_fault w))\<lparr>files := (files w)(p \<mapsto> [])\<rparr>)
                 | Some data \<Rightarrow> (Inr p, snd (next_fault w)))
      | Refused code \<Rightarrow> (Inl (SyscallError code), snd (next_fault w))
      | Broken code n \<Rightarrow> (Inl (SyscallError code), snd (next_fault w)))"
  by (simp add: OpenFile_def Let_def split_beta split: outcome.splits option.splits)

lemma WriteString_eq:
  "WriteString f s w =
     (case fst (next_fault w) of
        Done \<Rightarrow> (None, append_bytes f s (snd (next_fault w)))
      | Refused code \<Rightarrow> (Some (SyscallError code), snd (next_fault w))
      | Broken code n \<Rightarrow> (Some (SyscallError code), append_bytes f (take n s) (snd (next_fault w))))"
  by (simp add: WriteString_def Let_def split_beta split: outcome.splits)



lemma ReadFile_Inl:
  "ReadFile p w = (Inl e, w') \<Longrightarrow> files w' = files w \<and> (e = ErrNotExist \<longrightarrow> files w p = None)"
  by (auto simp: ReadFile_eq split: outcome.splits option.splits)

lemma WriteFile_None:
  "WriteFile p data w = (None, w') \<Longrightarrow> files w' = (files w)(p \<mapsto> data)"
  by (auto simp: WriteFile_eq split: outcome.splits)



lemma New_cases:
  "New p w =
     (case ReadFile p w of
        (Inr data, w') \<Rightarrow>
          (Inr \<lparr>path = p, items = foldl load_line [] (Split (ReplaceAll data [CR, LF] [LF]) [LF])\<rparr>, w')
      | (Inl e, w') \<Rightarrow>
          if e = ErrNotExist
          then (case WriteFile p [] w' of
                  (None, w'') \<Rightarrow> (Inr \<lparr>path = p, items = []\<rparr>, w'')
                | (Some e', w'') \<Rightarrow> (Inl e', w''))
          else (Inl e, w'))"
  by (simp add: New_def load_def Let_def IsNotExist_def del: Split.simps(2) ReplaceAll.simps(2)
      split: prod.splits sum.splits option.splits)


subsection \<open>The operations\<close>









lemma contains_iff:
  "contains fi item \<longleftrightarrow> TrimSpace item \<noteq> [] \<and> ToLower (TrimSpace item) \<in> set (items fi)"
  by (simp add: contains_def Set_Contains_def Let_def)

lemma next_seed_faults [simp]: "faults (snd (next_seed w)) = faults w"
  by (simp add: next_seed_def split: list.splits)

lemma next_fault_next_seed [simp]: "fst (next_fault (snd (next_seed w))) = fst (next_fault w)"
  by (simp add: next_fault_def split: list.splits)





lemma next_fault_quiet: "faults w = [] \<Longrightarrow> next_fault w = (Done, w)"
  by (simp add: next_fault_def)

lemma appendToFile_no_fault:
  assumes "faults w = []"
  shows "appendToFile fi item w =
    (None, w\<lparr>files := (files w)(path fi \<mapsto>
       (case files w (path fi) of
          None \<Rightarrow> item
        | Some old \<Rightarrow> if old = [] then item else old @ LF # item))\<rparr>)"
proof (cases "files w (path fi)")
  case None
  then show ?thesis
    using assms
    by (simp add: appendToFile_def OpenFile_eq WriteString_eq next_fault_quiet Stat_def
        append_bytes_def Close_def)
next
  case (Some old)
  then show ?thesis
    using assms
    by (simp add: appendToFile_def OpenFile_eq WriteString_eq next_fault_quiet Stat_def
        append_bytes_def Close_def)
qed

text \<open>
  No store that is built by \<^verbatim>\<open>New\<close> and changed by \<^verbatim>\<open>Add\<close> and \<^verbatim>\<open>Remove\<close> holds the empty
  string, so for such a store \<open>contains fi s\<close> says no more than that the trimmed,
  lower-cased form of \<open>s\<close> is in the set.
\<close>

lemma Nil_eq_ToLower: "[] = ToLower s \<longleftrightarrow> s = []"
  by (simp add: ToLower_def)

lemma New_no_empty_entry: "New p w = (Inr fi, w') \<Longrightarrow> [] \<notin> set (items fi)"
  by (auto simp: New_cases set_load_lines Nil_eq_ToLower simp del: Split.simps(2) ReplaceAll.simps(2)
      split: prod.splits sum.splits option.splits if_splits)

lemma Add_no_empty_entry:
  "[] \<notin> set (items fi) \<Longrightarrow> Add fi s w = (r, fi', w') \<Longrightarrow> [] \<notin> set (items fi')"
  by (auto simp: Add_def Let_def Nil_eq_ToLower split: if_splits prod.splits option.splits)

lemma Remove_no_empty_entry:
  "[] \<notin> set (items fi) \<Longrightarrow> Remove fi s w = (r, fi', w') \<Longrightarrow> [] \<notin> set (items fi')"
  by (auto simp: Remove_def Let_def split: if_splits prod.splits option.splits)

section \<open>The claims\<close>

subsection \<open>C1: file and memory after a successful mutation\<close>




subsection \<open>C2: an added item is found, whatever its case and outer white space\<close>



subsection \<open>C3: validation errors come before any mutation\<close>



subsection \<open>C4: what construction loads\<close>



subsection \<open>C5: removing an entry that is present\<close>




subsection \<open>C6: adding the same entry again\<close>



subsection \<open>C7: construction over a missing or unreadable file\<close>

text \<open>
  C7 as stated: over a path with no file, construction creates an empty file and returns
  a store. It fails when the file cannot be created: the read reports that the file does
  not exist, the write that creates it is refused, and \<^verbatim>\<open>New\<close> returns that error, no
  store, and no file.
\<close>

theorem C7_counterexample:
  "files \<lparr>files = Map.empty, faults = [Done, Refused 13], seeds = []\<rparr> ''list.txt'' = None
   \<and> fst (New ''list.txt'' \<lparr>files = Map.empty, faults = [Done, Refused 13], seeds = []\<rparr>)
       = Inl (SyscallError 13)
   \<and> files (snd (New ''list.txt'' \<lparr>files = Map.empty, faults = [Done, Refused 13], seeds = []\<rparr>))
        ''list.txt'' = None"
  by code_simp

text \<open>
  C7, amended. When the read reports that the file does not exist and the write that
  creates it goes through, \<^verbatim>\<open>New\<close> returns a store with an empty set over a file that is
  now empty; when that write fails, \<^verbatim>\<open>New\<close> fails with the error of the write. When the
  read fails with any other error, \<^verbatim>\<open>New\<close> fails with that error and no file has
  changed.
\<close>

theorem C7_construction_on_missing_or_unreadable_file:
  "(ReadFile p1 w1 = (Inl ErrNotExist, v1) \<and> WriteFile p1 [] v1 = (None, u1) \<longrightarrow>
      files w1 p1 = None \<and> New p1 w1 = (Inr \<lparr>path = p1, items = []\<rparr>, u1) \<and>
      files u1 p1 = Some []) \<and>
   (ReadFile p2 w2 = (Inl ErrNotExist, v2) \<and> WriteFile p2 [] v2 = (Some e2, u2) \<longrightarrow>
      New p2 w2 = (Inl e2, u2)) \<and>
   (ReadFile p3 w3 = (Inl e3, v3) \<and> \<not> IsNotExist e3 \<longrightarrow>
      New p3 w3 = (Inl e3, v3) \<and> files v3 = files w3)"
proof (intro conjI impI)
  show "files w1 p1 = None" "New p1 w1 = (Inr \<lparr>path = p1, items = []\<rparr>, u1)" "files u1 p1 = Some []"
    if "ReadFile p1 w1 = (Inl ErrNotExist, v1) \<and> WriteFile p1 [] v1 = (None, u1)"
    using that ReadFile_Inl[of p1 w1 ErrNotExist v1] WriteFile_None[of p1 "[]" v1 u1]
    by (simp_all add: New_cases)
  show "New p2 w2 = (Inl e2, u2)"
    if "ReadFile p2 w2 = (Inl ErrNotExist, v2) \<and> WriteFile p2 [] v2 = (Some e2, u2)"
    using that by (simp add: New_cases)
  show "New p3 w3 = (Inl e3, v3)" "files v3 = files w3"
    if "ReadFile p3 w3 = (Inl e3, v3) \<and> \<not> IsNotExist e3"
    using that ReadFile_Inl[of p3 w3 e3 v3] by (simp_all add: New_cases IsNotExist_def)
qed

theorem C7_construction_on_missing_or_unreadable_file_witness:
  "ReadFile ''list.txt'' (quiet Map.empty) = (Inl ErrNotExist, quiet Map.empty)
   \<and> WriteFile ''list.txt'' [] (quiet Map.empty) = (None, quiet [''list.txt'' \<mapsto> []])
   \<and> New ''list.txt'' (quiet Map.empty)
       = (Inr \<lparr>path = ''list.txt'', items = []\<rparr>, quiet [''list.txt'' \<mapsto> []])
   \<and> ReadFile ''list.txt'' \<lparr>files = Map.empty, faults = [Done, Refused 13], seeds = []\<rparr>
       = (Inl ErrNotExist, \<lparr>files = Map.empty, faults = [Refused 13], seeds = []\<rparr>)
   \<and> WriteFile ''list.txt'' [] \<lparr>files = Map.empty, faults = [Refused 13], seeds = []\<rparr>
       = (Some (SyscallError 13), quiet Map.empty)
   \<and> New ''list.txt'' \<lparr>files = Map.empty, faults = [Done, Refused 13], seeds = []\<rparr>
       = (Inl (SyscallError 13), quiet Map.empty)
   \<and> ReadFile ''list.txt'' \<lparr>files = [''list.txt'' \<mapsto> ''foo''], faults = [Refused 5], seeds = []\<rparr>
       = (Inl (SyscallError 5), quiet [''list.txt'' \<mapsto> ''foo''])
   \<and> \<not> IsNotExist (SyscallError 5)
   \<and> New ''list.txt'' \<lparr>files = [''list.txt'' \<mapsto> ''foo''], faults = [Refused 5], seeds = []\<rparr>
       = (Inl (SyscallError 5), quiet [''list.txt'' \<mapsto> ''foo''])"
proof -
  let ?p = "''list.txt''"
  let ?W2 = "\<lparr>files = Map.empty, faults = [Done, Refused 13], seeds = []\<rparr>"
  let ?V2 = "\<lparr>files = Map.empty, faults = [Refused 13], seeds = []\<rparr>"
  let ?W3 = "\<lparr>files = [?p \<mapsto> ''foo''], faults = [Refused 5], seeds = []\<rparr>"
  have r1: "ReadFile ?p (quiet Map.empty) = (Inl ErrNotExist, quiet Map.empty)"
    by (simp add: ReadFile_eq next_fault_def quiet_def)
  have c1: "WriteFile ?p [] (quiet Map.empty) = (None, quiet [?p \<mapsto> []])"
    by (simp add: WriteFile_eq next_fault_def quiet_def)
  have r2: "ReadFile ?p ?W2 = (Inl ErrNotExist, ?V2)"
    by (simp add: ReadFile_eq next_fault_def)
  have c2: "WriteFile ?p [] ?V2 = (Some (SyscallError 13), quiet Map.empty)"
    by (simp add: WriteFile_eq next_fault_def quiet_def)
  have r3: "ReadFile ?p ?W3 = (Inl (SyscallError 5), quiet [?p \<mapsto> ''foo''])"
    by (simp add: ReadFile_eq next_fault_def quiet_def)
  have n3: "\<not> IsNotExist (SyscallError 5)" by (simp add: IsNotExist_def)
  note t = C7_construction_on_missing_or_unreadable_file[where ?p1.0 = ?p and ?w1.0 = "quiet Map.empty"
      and ?v1.0 = "quiet Map.empty" and ?u1.0 = "quiet [?p \<mapsto> []]"
      and ?p2.0 = ?p and ?w2.0 = ?W2 and ?v2.0 = ?V2 and ?e2.0 = "SyscallError 13"
      and ?u2.0 = "quiet Map.empty"
      and ?p3.0 = ?p and ?w3.0 = ?W3 and ?e3.0 = "SyscallError 5" and ?v3.0 = "quiet [?p \<mapsto> ''foo'']"]
  have "New ?p (quiet Map.empty) = (Inr \<lparr>path = ?p, items = []\<rparr>, quiet [?p \<mapsto> []])"
    using t r1 c1 by blast
  moreover have "New ?p ?W2 = (Inl (SyscallError 13), quiet Map.empty)"
    using t r2 c2 by blast
  moreover have "New ?p ?W3 = (Inl (SyscallError 5), quiet [?p \<mapsto> ''foo''])"
    using t r3 n3 by blast
  ultimately show ?thesis using r1 c1 r2 c2 r3 n3 by blast
qed

subsection \<open>C8: reopening after an insert\<close>



subsection \<open>C9: a failed append is not rolled back\<close>

text \<open>
  C9. If the item is valid and new, and appending it to the file fails with an error,
  then \<^verbatim>\<open>Add\<close> returns that error, the store it leaves holds the normal form of the item,
  and \<^verbatim>\<open>Contains\<close> of the item is true on it.
\<close>

theorem C9_append_failure_keeps_memory:
  assumes "TrimSpace item \<noteq> []" and "\<not> contains fi item"
    and "appendToFile (fi\<lparr>items := Set_Add (ToLower (TrimSpace item)) (items fi)\<rparr>)
           (TrimSpace item) w = (Some err, w')"
  shows "Add fi item w = (Some err, fi\<lparr>items := Set_Add (ToLower (TrimSpace item)) (items fi)\<rparr>, w')
    \<and> ToLower (TrimSpace item) \<in> set (items (fst (snd (Add fi item w))))
    \<and> Contains (fst (snd (Add fi item w))) item"
proof -
  have nc: "\<not> contains fi (TrimSpace item)" using assms(2) by (simp add: contains_iff)
  have "Add fi item w = (Some err, fi\<lparr>items := Set_Add (ToLower (TrimSpace item)) (items fi)\<rparr>, w')"
    using assms(1) nc assms(3) by (simp add: Add_def Let_def)
  then show ?thesis using assms(1) by (simp add: Contains_def contains_iff)
qed

theorem C9_append_failure_keeps_memory_witness:
  "TrimSpace '' Foo '' \<noteq> []
   \<and> \<not> contains \<lparr>path = ''list.txt'', items = [''bar'']\<rparr> '' Foo ''
   \<and> fst (appendToFile \<lparr>path = ''list.txt'', items = Set_Add (ToLower (TrimSpace '' Foo '')) [''bar'']\<rparr>
        (TrimSpace '' Foo '')
        \<lparr>files = [''list.txt'' \<mapsto> ''bar''], faults = [Done, Done, Refused 28], seeds = []\<rparr>)
       = Some (SyscallError 28)
   \<and> fst (Add \<lparr>path = ''list.txt'', items = [''bar'']\<rparr> '' Foo ''
        \<lparr>files = [''list.txt'' \<mapsto> ''bar''], faults = [Done, Done, Refused 28], seeds = []\<rparr>)
       = Some (SyscallError 28)
   \<and> Contains (fst (snd (Add \<lparr>path = ''list.txt'', items = [''bar'']\<rparr> '' Foo ''
        \<lparr>files = [''list.txt'' \<mapsto> ''bar''], faults = [Done, Done, Refused 28], seeds = []\<rparr>))) '' Foo ''
   \<and> files (snd (snd (Add \<lparr>path = ''list.txt'', items = [''bar'']\<rparr> '' Foo ''
        \<lparr>files = [''list.txt'' \<mapsto> ''bar''], faults = [Done, Done, Refused 28], seeds = []\<rparr>))) ''list.txt''
       = Some ''bar\<newline>''
   \<and> ''foo'' \<notin> file_entries ''bar\<newline>''"
proof -
  let ?F = "\<lparr>path = ''list.txt'', items = [''bar'']\<rparr>"
  let ?W = "\<lparr>files = [''list.txt'' \<mapsto> ''bar''], faults = [Done, Done, Refused 28], seeds = []\<rparr>"
  let ?F' = "?F\<lparr>items := Set_Add (ToLower (TrimSpace '' Foo '')) (items ?F)\<rparr>"
  let ?ap = "appendToFile ?F' (TrimSpace '' Foo '') ?W"
  have 1: "TrimSpace '' Foo '' \<noteq> []" by code_simp
  have 2: "\<not> contains ?F '' Foo ''" by code_simp
  have 3: "fst ?ap = Some (SyscallError 28)" by code_simp
  have 5: "files (snd (snd (Add ?F '' Foo '' ?W))) ''list.txt'' = Some ''bar\<newline>''" by code_simp
  have 6: "''foo'' \<notin> file_entries ''bar\<newline>''" by code_simp
  have "?ap = (Some (SyscallError 28), snd ?ap)" using 3 by (simp add: prod_eq_iff)
  note t = C9_append_failure_keeps_memory[OF 1 2 this]
  have "fst (Add ?F '' Foo '' ?W) = Some (SyscallError 28)" using t by simp
  moreover have "Contains (fst (snd (Add ?F '' Foo '' ?W))) '' Foo ''" using t by blast
  ultimately show ?thesis using 1 2 3 5 6 by simp
qed

subsection \<open>C10: line feeds inside an item\<close>

text \<open>
  C10. \<^verbatim>\<open>Add\<close> looks at nothing inside the trimmed item: whenever the trimmed item is not
  empty and not present and no fault is pending, \<^verbatim>\<open>Add\<close> returns success, stores the
  lower-cased trimmed item as one entry and appends the trimmed item to the file as it
  is. For the item \<^verbatim>\<open>" x\ny "\<close> on a store over the file \<^verbatim>\<open>"Foo"\<close>: success, the one new
  entry \<^verbatim>\<open>"x\ny"\<close> in memory, and a file of three lines.
\<close>

theorem C10_interior_newline_accepted:
  "(TrimSpace item \<noteq> [] \<and> \<not> contains fi item \<and> faults w = [] \<longrightarrow>
      Add fi item w =
        (None, fi\<lparr>items := items fi @ [ToLower (TrimSpace item)]\<rparr>,
         w\<lparr>files := (files w)(path fi \<mapsto>
            (case files w (path fi) of
               None \<Rightarrow> TrimSpace item
             | Some old \<Rightarrow> if old = [] then TrimSpace item else old @ LF # TrimSpace item))\<rparr>))
   \<and> TrimSpace '' x\<newline>y '' = ''x\<newline>y''
   \<and> fst (Add \<lparr>path = ''list.txt'', items = [''foo'']\<rparr> '' x\<newline>y ''
        (quiet [''list.txt'' \<mapsto> ''Foo''])) = None
   \<and> items (fst (snd (Add \<lparr>path = ''list.txt'', items = [''foo'']\<rparr> '' x\<newline>y ''
        (quiet [''list.txt'' \<mapsto> ''Foo'']))))
       = [''foo'', ''x\<newline>y'']
   \<and> files (snd (snd (Add \<lparr>path = ''list.txt'', items = [''foo'']\<rparr> '' x\<newline>y ''
        (quiet [''list.txt'' \<mapsto> ''Foo''])))) ''list.txt''
       = Some ''Foo\<newline>x\<newline>y''
   \<and> Split ''Foo\<newline>x\<newline>y'' [LF] = [''Foo'', ''x'', ''y'']"
proof -
  have gen: "Add fi item w =
        (None, fi\<lparr>items := items fi @ [ToLower (TrimSpace item)]\<rparr>,
         w\<lparr>files := (files w)(path fi \<mapsto>
            (case files w (path fi) of
               None \<Rightarrow> TrimSpace item
             | Some old \<Rightarrow> if old = [] then TrimSpace item else old @ LF # TrimSpace item))\<rparr>)"
    if h: "TrimSpace item \<noteq> [] \<and> \<not> contains fi item \<and> faults w = []"
  proof -
    have nc: "\<not> contains fi (TrimSpace item)" using h by (auto simp: contains_iff)
    have ni: "ToLower (TrimSpace item) \<notin> set (items fi)" using h by (auto simp: contains_iff)
    show ?thesis
      using h nc ni by (simp add: Add_def Let_def appendToFile_no_fault Set_Add_def)
  qed
  have ex: "TrimSpace '' x\<newline>y '' = ''x\<newline>y''
   \<and> fst (Add \<lparr>path = ''list.txt'', items = [''foo'']\<rparr> '' x\<newline>y ''
        (quiet [''list.txt'' \<mapsto> ''Foo''])) = None
   \<and> items (fst (snd (Add \<lparr>path = ''list.txt'', items = [''foo'']\<rparr> '' x\<newline>y ''
        (quiet [''list.txt'' \<mapsto> ''Foo'']))))
       = [''foo'', ''x\<newline>y'']
   \<and> files (snd (snd (Add \<lparr>path = ''list.txt'', items = [''foo'']\<rparr> '' x\<newline>y ''
        (quiet [''list.txt'' \<mapsto> ''Foo''])))) ''list.txt''
       = Some ''Foo\<newline>x\<newline>y''
   \<and> Split ''Foo\<newline>x\<newline>y'' [LF] = [''Foo'', ''x'', ''y'']"
    by code_simp
  show ?thesis using gen ex by blast
qed

theorem C10_interior_newline_accepted_witness:
  "TrimSpace ''a\<newline>b'' \<noteq> []
   \<and> LF \<in> set (TrimSpace ''a\<newline>b'')
   \<and> \<not> contains \<lparr>path = ''list.txt'', items = []\<rparr> ''a\<newline>b''
   \<and> faults (quiet [''list.txt'' \<mapsto> []]) = []
   \<and> Add \<lparr>path = ''list.txt'', items = []\<rparr> ''a\<newline>b'' (quiet [''list.txt'' \<mapsto> []])
       = (None, \<lparr>path = ''list.txt'', items = [''a\<newline>b'']\<rparr>, quiet [''list.txt'' \<mapsto> ''a\<newline>b''])"
proof -
  let ?F = "\<lparr>path = ''list.txt'', items = []\<rparr>"
  let ?W = "quiet [''list.txt'' \<mapsto> []]"
  have 1: "TrimSpace ''a\<newline>b'' \<noteq> []" by code_simp
  have 2: "LF \<in> set (TrimSpace ''a\<newline>b'')" by code_simp
  have 3: "\<not> contains ?F ''a\<newline>b''" by code_simp
  have 4: "faults ?W = []" by (simp add: quiet_def)
  have t: "TrimSpace ''a\<newline>b'' = ''a\<newline>b''" by code_simp
  have l: "ToLower ''a\<newline>b'' = ''a\<newline>b''" by code_simp
  from C10_interior_newline_accepted[where item = "''a\<newline>b''" and fi = ?F and w = ?W] 1 3 4
  have "Add ?F ''a\<newline>b'' ?W =
        (None, ?F\<lparr>items := items ?F @ [ToLower (TrimSpace ''a\<newline>b'')]\<rparr>,
         ?W\<lparr>files := (files ?W)(path ?F \<mapsto>
            (case files ?W (path ?F) of
               None \<Rightarrow> TrimSpace ''a\<newline>b''
             | Some old \<Rightarrow> if old = [] then TrimSpace ''a\<newline>b'' else old @ LF # TrimSpace ''a\<newline>b''))\<rparr>)"
    by blast
  then have "Add ?F ''a\<newline>b'' ?W
       = (None, \<lparr>path = ''list.txt'', items = [''a\<newline>b'']\<rparr>, quiet [''list.txt'' \<mapsto> ''a\<newline>b''])"
    by (simp add: t l quiet_def)
  then show ?thesis using 1 2 3 4 by blast
qed

end
